theory Spec2Isabelle
  imports Main
begin

section \<open>JavaScript values and exceptions\<close>

text \<open>
  The module \<^verbatim>\<open>packages/next/src/client/components/redirect.ts\<close> receives values of
  the TypeScript type \<^verbatim>\<open>any\<close>. A value is a primitive or an object; an object carries
  the class it was made by and the properties that a read finds on it, in insertion order.
  Numbers are not inspected by the module beyond \<^verbatim>\<open>typeof\<close>, and a string is the list of
  its characters, which is all that splitting on \<^verbatim>\<open>';'\<close> looks at.

  Reading a property can run user code: an accessor property, or the \<^verbatim>\<open>get\<close> trap of a
  proxy. A slot is therefore either \<open>Data v\<close>, which a read returns, or \<open>Throws e\<close>, an
  accessor or trap that throws \<open>e\<close> when it is read. An accessor that returns the same
  value at every read is read like a data property and is a \<open>Data\<close> slot; an accessor whose
  result changes from one read to the next is not represented.
\<close>

datatype 'v slot = Data 'v | Throws 'v

datatype js_class = PlainObject | ErrorObject | TypeErrorObject

datatype jsval =
    JUndefined
  | JNull
  | JBool bool
  | JNum int
  | JStr string
  | JObj js_class "(string \<times> jsval slot) list"

text \<open>
  A computation either throws a value (\<open>Inl\<close>) or returns one (\<open>Inr\<close>);
  \<open>bind_result\<close> sequences two computations and propagates what the first throws.
\<close>

definition bind_result :: "jsval + 'a \<Rightarrow> ('a \<Rightarrow> jsval + 'b) \<Rightarrow> jsval + 'b" where
  "bind_result r f = (case r of Inl e \<Rightarrow> Inl e | Inr x \<Rightarrow> f x)"

text \<open>\<^verbatim>\<open>new Error(msg)\<close>: the message is the object's own property.\<close>

definition new_Error :: "string \<Rightarrow> jsval" where
  "new_Error msg = JObj ErrorObject [(''message'', Data (JStr msg))]"

text \<open>The TypeError the engine throws; its message is implementation-defined and left out.\<close>

definition type_error :: jsval where
  "type_error = JObj TypeErrorObject []"

text \<open>
  \<^verbatim>\<open>v.k\<close> for a key that the built-in prototypes do not define (the module reads
  \<^verbatim>\<open>digest\<close> only): a TypeError on \<^verbatim>\<open>undefined\<close> and \<^verbatim>\<open>null\<close>; on an object the
  value of a data slot, what an accessor or trap throws, and \<^verbatim>\<open>undefined\<close> where the
  property is missing; \<^verbatim>\<open>undefined\<close> on the other primitives.
\<close>

fun get_prop :: "jsval \<Rightarrow> string \<Rightarrow> jsval + jsval" where
  "get_prop JUndefined k = Inl type_error"
| "get_prop JNull k = Inl type_error"
| "get_prop (JObj c ps) k =
     (case map_of ps k of
        None \<Rightarrow> Inr JUndefined
      | Some (Data v) \<Rightarrow> Inr v
      | Some (Throws e) \<Rightarrow> Inl e)"
| "get_prop (JBool b) k = Inr JUndefined"
| "get_prop (JNum n) k = Inr JUndefined"
| "get_prop (JStr s) k = Inr JUndefined"

text \<open>Optional chaining \<^verbatim>\<open>v?.k\<close>.\<close>

definition opt_get :: "jsval \<Rightarrow> string \<Rightarrow> jsval + jsval" where
  "opt_get v k = (if v = JUndefined \<or> v = JNull then Inr JUndefined else get_prop v k)"

fun update_prop ::
  "string \<Rightarrow> jsval slot \<Rightarrow> (string \<times> jsval slot) list \<Rightarrow> (string \<times> jsval slot) list" where
  "update_prop k v [] = [(k, v)]"
| "update_prop k v ((k', v') # ps) =
     (if k' = k then (k, v) # ps else (k', v') # update_prop k v ps)"

text \<open>
  The assignment \<^verbatim>\<open>o.k = v\<close> of a strict-mode module, returning the object after it:
  a TypeError on anything that is not an object. The module assigns to the object that
  \<^verbatim>\<open>new Error\<close> has just made, where the assignment writes a data property.
\<close>

fun assign :: "jsval \<Rightarrow> string \<Rightarrow> jsval \<Rightarrow> jsval + jsval" where
  "assign (JObj c ps) k v = Inr (JObj c (update_prop k (Data v) ps))"
| "assign JUndefined k v = Inl type_error"
| "assign JNull k v = Inl type_error"
| "assign (JBool b) k v = Inl type_error"
| "assign (JNum n) k v = Inl type_error"
| "assign (JStr s) k v = Inl type_error"

fun typeof :: "jsval \<Rightarrow> string" where
  "typeof JUndefined = ''undefined''"
| "typeof JNull = ''object''"
| "typeof (JBool b) = ''boolean''"
| "typeof (JNum n) = ''number''"
| "typeof (JStr s) = ''string''"
| "typeof (JObj c ps) = ''object''"

subsection \<open>String.prototype.split\<close>

text \<open>
  \<^verbatim>\<open>s.split(sep)\<close> for a one-character separator: a scan that closes the current field
  at every separator. The result is never empty (\<^verbatim>\<open>''.split(';')\<close> is \<^verbatim>\<open>['']\<close>).
\<close>

fun split_acc :: "char \<Rightarrow> string \<Rightarrow> string \<Rightarrow> string list" where
  "split_acc sep cur [] = [cur]"
| "split_acc sep cur (x # xs) =
     (if x = sep then cur # split_acc sep [] xs else split_acc sep (cur @ [x]) xs)"

definition split_on :: "char \<Rightarrow> string \<Rightarrow> string list" where
  "split_on sep s = split_acc sep [] s"

text \<open>
  \<^verbatim>\<open>v.split(sep, limit)\<close>: the limit truncates the array of all the fields to its first
  \<open>limit\<close> entries; what follows them is dropped, not kept in the last entry. On a value
  that is not a string the call throws a TypeError.
\<close>

fun js_split :: "jsval \<Rightarrow> char \<Rightarrow> nat \<Rightarrow> jsval + string list" where
  "js_split (JStr s) sep limit = Inr (take limit (split_on sep s))"
| "js_split JUndefined sep limit = Inl type_error"
| "js_split JNull sep limit = Inl type_error"
| "js_split (JBool b) sep limit = Inl type_error"
| "js_split (JNum n) sep limit = Inl type_error"
| "js_split (JObj c ps) sep limit = Inl type_error"

text \<open>Array indexing and destructuring: \<^verbatim>\<open>undefined\<close> past the end.\<close>

definition arr_get :: "string list \<Rightarrow> nat \<Rightarrow> jsval" where
  "arr_get xs i = (if i < length xs then JStr (xs ! i) else JUndefined)"

section \<open>The redirect module\<close>

definition REDIRECT_ERROR_CODE :: string where
  "REDIRECT_ERROR_CODE = ''NEXT_REDIRECT''"

datatype RedirectType = push | replace

fun RedirectType_value :: "RedirectType \<Rightarrow> string" where
  "RedirectType_value push = ''push''"
| "RedirectType_value replace = ''replace''"

text \<open>A boolean inside a template literal.\<close>

fun bool_to_string :: "bool \<Rightarrow> string" where
  "bool_to_string True = ''true''"
| "bool_to_string False = ''false''"

text \<open>
  The request store of \<^verbatim>\<open>request-async-storage.external\<close>, of which the module reads
  \<^verbatim>\<open>mutableCookies\<close> only. \<^verbatim>\<open>requestAsyncStorage.getStore()\<close> is the ambient store, or
  \<^verbatim>\<open>undefined\<close> outside a request: the functions below take it as their first argument.
\<close>

record request_store =
  mutableCookies :: jsval

text \<open>An argument with a default value is an option: \<open>None\<close> where the caller omits it.\<close>

definition default_arg :: "'a option \<Rightarrow> 'a \<Rightarrow> 'a" where
  "default_arg a d = (case a of None \<Rightarrow> d | Some x \<Rightarrow> x)"

definition digest_template :: "RedirectType \<Rightarrow> string \<Rightarrow> bool \<Rightarrow> string" where
  "digest_template type url permanent =
     REDIRECT_ERROR_CODE @ '';'' @ RedirectType_value type @ '';'' @ url @ '';''
       @ bool_to_string permanent"

definition getRedirectError ::
  "request_store option \<Rightarrow> string \<Rightarrow> RedirectType \<Rightarrow> bool option \<Rightarrow> jsval + jsval" where
  "getRedirectError getStore url type permanent_arg =
     (let permanent = default_arg permanent_arg False;
          error = new_Error REDIRECT_ERROR_CODE
      in bind_result (assign error ''digest'' (JStr (digest_template type url permanent)))
           (\<lambda>error.
              let requestStore = getStore
              in case requestStore of
                   Some store \<Rightarrow> assign error ''mutableCookies'' (mutableCookies store)
                 | None \<Rightarrow> Inr error))"

text \<open>
  The two throw-helpers have the return type \<^verbatim>\<open>never\<close>: the model returns \<open>unit\<close> on
  the side of a normal return, which no branch produces.
\<close>

definition redirect :: "request_store option \<Rightarrow> string \<Rightarrow> RedirectType option \<Rightarrow> jsval + unit" where
  "redirect getStore url type_arg =
     (let type = default_arg type_arg replace
      in case getRedirectError getStore url type (Some False) of
           Inl e \<Rightarrow> Inl e
         | Inr error \<Rightarrow> Inl error)"

definition permanentRedirect ::
  "request_store option \<Rightarrow> string \<Rightarrow> RedirectType option \<Rightarrow> jsval + unit" where
  "permanentRedirect getStore url type_arg =
     (let type = default_arg type_arg replace
      in case getRedirectError getStore url type (Some True) of
           Inl e \<Rightarrow> Inl e
         | Inr error \<Rightarrow> Inl error)"

definition isRedirectError :: "jsval \<Rightarrow> jsval + bool" where
  "isRedirectError error =
     bind_result (opt_get error ''digest'') (\<lambda>d.
       if typeof d \<noteq> ''string'' then Inr False
       else
         bind_result (get_prop error ''digest'') (\<lambda>digest.
         bind_result (js_split digest CHR '';'' 4) (\<lambda>fields.
           let errorCode = arr_get fields 0;
               type = arr_get fields 1;
               destination = arr_get fields 2;
               permanent = arr_get fields 3
           in Inr (errorCode = JStr REDIRECT_ERROR_CODE \<and>
                   (type = JStr ''replace'' \<or> type = JStr ''push'') \<and>
                   typeof destination = ''string'' \<and>
                   (permanent = JStr ''true'' \<or> permanent = JStr ''false'')))))"

definition getURLFromRedirectError :: "jsval \<Rightarrow> jsval + jsval" where
  "getURLFromRedirectError error =
     bind_result (isRedirectError error) (\<lambda>ok.
       if \<not> ok then Inr JNull
       else
         bind_result (get_prop error ''digest'') (\<lambda>digest.
         bind_result (js_split digest CHR '';'' 3) (\<lambda>fields.
           Inr (arr_get fields 2))))"

definition getRedirectTypeFromError :: "jsval \<Rightarrow> jsval + jsval" where
  "getRedirectTypeFromError error =
     bind_result (isRedirectError error) (\<lambda>ok.
       if \<not> ok then Inl (new_Error ''Not a redirect error'')
       else
         bind_result (get_prop error ''digest'') (\<lambda>digest.
         bind_result (js_split digest CHR '';'' 2) (\<lambda>fields.
           Inr (arr_get fields 1))))"

definition getRedirectStatusCodeFromError :: "jsval \<Rightarrow> jsval + int" where
  "getRedirectStatusCodeFromError error =
     bind_result (isRedirectError error) (\<lambda>ok.
       if \<not> ok then Inl (new_Error ''Not a redirect error'')
       else
         bind_result (get_prop error ''digest'') (\<lambda>digest.
         bind_result (js_split digest CHR '';'' 4) (\<lambda>fields.
           Inr (if arr_get fields 3 = JStr ''true'' then 308 else 307))))"

text \<open>
  The frame that catches what a computation throws and hands it to a handler:
  \<open>None\<close> where the computation returns normally and nothing is caught.
\<close>

definition catch_result :: "jsval + 'a \<Rightarrow> (jsval \<Rightarrow> 'b) \<Rightarrow> 'b option" where
  "catch_result r handler = (case r of Inl e \<Rightarrow> Some (handler e) | Inr x \<Rightarrow> None)"

section \<open>The vocabulary of the specification\<close>

text \<open>Whether a value is an object that carries the property \<open>k\<close>.\<close>

definition has_own_property :: "jsval \<Rightarrow> string \<Rightarrow> bool" where
  "has_own_property v k = (case v of JObj c ps \<Rightarrow> map_of ps k \<noteq> None | _ \<Rightarrow> False)"

text \<open>Fields joined by a single delimiter between neighbours.\<close>

fun join_with :: "char \<Rightarrow> string list \<Rightarrow> string" where
  "join_with sep [] = []"
| "join_with sep [x] = x"
| "join_with sep (x # y # ys) = x @ sep # join_with sep (y # ys)"

text \<open>Whether reading the property \<open>k\<close> of a value runs an accessor or trap that throws.\<close>

definition read_throws :: "jsval \<Rightarrow> string \<Rightarrow> bool" where
  "read_throws v k =
     (case v of
        JObj c ps \<Rightarrow> (case map_of ps k of Some (Throws e) \<Rightarrow> True | _ \<Rightarrow> False)
      | _ \<Rightarrow> False)"

text \<open>The discriminator of a candidate: its \<^verbatim>\<open>digest\<close> attribute, when it has one that is a string.\<close>

definition digest_string :: "jsval \<Rightarrow> string option" where
  "digest_string v =
     (case v of
        JObj c ps \<Rightarrow> (case map_of ps ''digest'' of Some (Data (JStr s)) \<Rightarrow> Some s | _ \<Rightarrow> None)
      | _ \<Rightarrow> None)"

definition field_at :: "string list \<Rightarrow> nat \<Rightarrow> string option" where
  "field_at fs i = (if i < length fs then Some (fs ! i) else None)"

text \<open>
  Recognize, in the words of the specification: the discriminator is split on the delimiter
  into at most 4 fields; field 1 equals the tag literal, field 2 is one of the two
  navigation-mode literals, field 3 is present, field 4 is exactly \<^verbatim>\<open>true\<close> or \<^verbatim>\<open>false\<close>.
\<close>

definition Recognize :: "jsval \<Rightarrow> bool" where
  "Recognize candidate =
     (case digest_string candidate of
        None \<Rightarrow> False
      | Some s \<Rightarrow>
          (let fs = take 4 (split_on CHR '';'' s)
           in field_at fs 0 = Some REDIRECT_ERROR_CODE \<and>
              (field_at fs 1 = Some ''push'' \<or> field_at fs 1 = Some ''replace'') \<and>
              field_at fs 2 \<noteq> None \<and>
              (field_at fs 3 = Some ''true'' \<or> field_at fs 3 = Some ''false'')))"

section \<open>Splitting and joining\<close>

lemma split_acc_nosep: "sep \<notin> set a \<Longrightarrow> split_acc sep cur a = [cur @ a]"
  by (induction a arbitrary: cur) auto

lemma split_acc_append:
  "sep \<notin> set a \<Longrightarrow> split_acc sep cur (a @ sep # b) = (cur @ a) # split_acc sep [] b"
  by (induction a arbitrary: cur) auto

lemma split_on_nosep: "sep \<notin> set a \<Longrightarrow> split_on sep a = [a]"
  by (simp add: split_on_def split_acc_nosep)

lemma split_on_append:
  "sep \<notin> set a \<Longrightarrow> split_on sep (a @ sep # b) = a # split_on sep b"
  by (simp add: split_on_def split_acc_append)

lemma split_acc_not_Nil: "split_acc sep cur s \<noteq> []"
  by (induction s arbitrary: cur) auto

lemma split_on_not_Nil: "split_on sep s \<noteq> []"
  by (simp add: split_on_def split_acc_not_Nil)

text \<open>Joining the fields of the unbounded split gives the string back.\<close>

lemma join_split_acc: "join_with sep (split_acc sep cur s) = cur @ s"
proof (induction s arbitrary: cur)
  case Nil
  show ?case by simp
next
  case (Cons x xs)
  show ?case
  proof (cases "x = sep")
    case True
    obtain f fs where "split_acc sep [] xs = f # fs"
      using split_acc_not_Nil by (cases "split_acc sep [] xs") auto
    with Cons [of "[]"] True show ?thesis by simp
  next
    case False
    with Cons [of "cur @ [x]"] show ?thesis by simp
  qed
qed

lemma join_split_on: "join_with sep (split_on sep s) = s"
  by (simp add: split_on_def join_split_acc)

section \<open>The fields of a digest\<close>

lemma sep_notin_tag: "CHR '';'' \<notin> set REDIRECT_ERROR_CODE"
  by (simp add: REDIRECT_ERROR_CODE_def)

lemma sep_notin_type: "CHR '';'' \<notin> set (RedirectType_value m)"
  by (cases m) simp_all

lemma sep_notin_bool: "CHR '';'' \<notin> set (bool_to_string p)"
  by (cases p) simp_all

lemma split_digest_template:
  "split_on CHR '';'' (digest_template m d p) =
     REDIRECT_ERROR_CODE # RedirectType_value m # split_on CHR '';'' (d @ '';'' @ bool_to_string p)"
  by (simp add: digest_template_def split_on_append sep_notin_tag sep_notin_type)

lemma split_digest_template_free:
  assumes "CHR '';'' \<notin> set d"
  shows "split_on CHR '';'' (digest_template m d p @ rest) =
     REDIRECT_ERROR_CODE # RedirectType_value m # d # split_on CHR '';'' (bool_to_string p @ rest)"
  using assms
  by (simp add: digest_template_def split_on_append sep_notin_tag sep_notin_type)

lemma take4_valid:
  assumes "CHR '';'' \<notin> set d"
  shows "take 4 (split_on CHR '';'' (digest_template m d p)) =
     [REDIRECT_ERROR_CODE, RedirectType_value m, d, bool_to_string p]"
  using split_digest_template_free [OF assms, of m p "[]"]
  by (simp add: split_on_nosep sep_notin_bool)

lemma take4_valid_extra:
  assumes "CHR '';'' \<notin> set d"
  shows "take 4 (split_on CHR '';'' (digest_template m d p @ CHR '';'' # extra)) =
     [REDIRECT_ERROR_CODE, RedirectType_value m, d, bool_to_string p]"
  using split_digest_template_free [OF assms, of m p "CHR '';'' # extra"]
  by (simp add: split_on_append sep_notin_bool)

section \<open>Construction\<close>

text \<open>The constructor never throws, and this is the object it returns.\<close>

lemma getRedirectError_value:
  "getRedirectError gs url m p =
     Inr (JObj ErrorObject
       ([(''message'', Data (JStr REDIRECT_ERROR_CODE)),
         (''digest'', Data (JStr (digest_template m url (default_arg p False))))] @
        (case gs of None \<Rightarrow> [] | Some store \<Rightarrow> [(''mutableCookies'', Data (mutableCookies store))])))"
  by (cases gs) (simp_all add: getRedirectError_def new_Error_def bind_result_def)

lemma getRedirectError_digest:
  "\<exists>c ps. getRedirectError gs url m p = Inr (JObj c ps) \<and>
     map_of ps ''digest'' = Some (Data (JStr (digest_template m url (default_arg p False))))"
  by (cases gs) (simp_all add: getRedirectError_value)

lemma redirect_throws:
  "\<exists>e. redirect gs url t = Inl e" "\<exists>e. permanentRedirect gs url t = Inl e"
  by (simp_all add: redirect_def permanentRedirect_def getRedirectError_value)

section \<open>Recognition and extraction\<close>

lemma isRedirectError_digest:
  assumes "map_of ps ''digest'' = Some (Data (JStr s))"
  shows "isRedirectError (JObj c ps) =
     Inr (let fs = take 4 (split_on CHR '';'' s)
          in arr_get fs 0 = JStr REDIRECT_ERROR_CODE \<and>
             (arr_get fs 1 = JStr ''replace'' \<or> arr_get fs 1 = JStr ''push'') \<and>
             typeof (arr_get fs 2) = ''string'' \<and>
             (arr_get fs 3 = JStr ''true'' \<or> arr_get fs 3 = JStr ''false''))"
  using assms by (simp add: isRedirectError_def bind_result_def opt_get_def Let_def)

lemma typeof_string_iff: "typeof v = ''string'' \<longleftrightarrow> (\<exists>s. v = JStr s)"
  by (cases v) simp_all

lemma isRedirectError_read_throws:
  assumes "map_of ps ''digest'' = Some (Throws e)"
  shows "isRedirectError (JObj c ps) = Inl e"
  using assms by (simp add: isRedirectError_def bind_result_def opt_get_def)

lemma read_throws_iff:
  "read_throws v k \<longleftrightarrow> (\<exists>c ps e. v = JObj c ps \<and> map_of ps k = Some (Throws e))"
  by (auto simp: read_throws_def split: jsval.splits option.splits slot.splits)

lemma isRedirectError_no_digest:
  assumes "digest_string v = None" and "\<not> read_throws v ''digest''"
  shows "isRedirectError v = Inr False"
proof (cases v)
  case (JObj c ps)
  show ?thesis
  proof (cases "map_of ps ''digest''")
    case None
    with JObj show ?thesis
      by (simp add: isRedirectError_def bind_result_def opt_get_def)
  next
    case (Some sl)
    from assms(2) JObj Some obtain x where sl: "sl = Data x"
      by (cases sl) (auto simp: read_throws_def)
    from assms(1) JObj Some sl have "typeof x \<noteq> ''string''"
      by (auto simp: digest_string_def typeof_string_iff)
    with JObj Some sl show ?thesis
      by (simp add: isRedirectError_def bind_result_def opt_get_def)
  qed
qed (simp_all add: isRedirectError_def bind_result_def opt_get_def)

lemma arr_get_field_at: "arr_get fs i = JStr s \<longleftrightarrow> field_at fs i = Some s"
  by (simp add: arr_get_def field_at_def)

lemma typeof_arr_get: "typeof (arr_get fs i) = ''string'' \<longleftrightarrow> field_at fs i \<noteq> None"
  by (simp add: arr_get_def field_at_def)

lemma isRedirectError_Recognize:
  assumes "\<not> read_throws v ''digest''"
  shows "isRedirectError v = Inr (Recognize v)"
proof (cases "digest_string v")
  case None
  with assms show ?thesis by (simp add: isRedirectError_no_digest Recognize_def)
next
  case (Some s)
  then obtain c ps where v: "v = JObj c ps" and d: "map_of ps ''digest'' = Some (Data (JStr s))"
    by (auto simp: digest_string_def split: jsval.splits option.splits slot.splits)
  show ?thesis
    unfolding v isRedirectError_digest [OF d] Recognize_def
    using Some v by (simp add: arr_get_field_at typeof_arr_get Let_def disj_commute)
qed

text \<open>Where the read of the digest throws, nothing is recognised.\<close>

lemma read_throws_not_recognised:
  assumes "read_throws v ''digest''"
  shows "\<not> Recognize v" and "isRedirectError v \<noteq> Inr b"
proof -
  from assms obtain c ps e where v: "v = JObj c ps" and d: "map_of ps ''digest'' = Some (Throws e)"
    by (auto simp: read_throws_iff)
  show "\<not> Recognize v"
    by (simp add: Recognize_def digest_string_def v d)
  show "isRedirectError v \<noteq> Inr b"
    by (simp add: v isRedirectError_read_throws [OF d])
qed

lemma isRedirectError_True_iff: "isRedirectError v = Inr True \<longleftrightarrow> Recognize v"
proof (cases "read_throws v ''digest''")
  case True
  then show ?thesis by (simp add: read_throws_not_recognised)
next
  case False
  then show ?thesis by (simp add: isRedirectError_Recognize)
qed

text \<open>A digest whose first four fields are valid is recognised, and the fields are what is read.\<close>

lemma valid_fields_recognized:
  assumes d: "map_of ps ''digest'' = Some (Data (JStr s))"
    and fs: "take 4 (split_on CHR '';'' s) =
       [REDIRECT_ERROR_CODE, RedirectType_value m, seg, bool_to_string p]"
  shows "isRedirectError (JObj c ps) = Inr True"
  unfolding isRedirectError_digest [OF d] fs
  by (cases m; cases p) (simp_all add: arr_get_def)

lemma valid_fields_extracted:
  assumes d: "map_of ps ''digest'' = Some (Data (JStr s))"
    and fs: "take 4 (split_on CHR '';'' s) =
       [REDIRECT_ERROR_CODE, RedirectType_value m, seg, bool_to_string p]"
  shows "getURLFromRedirectError (JObj c ps) = Inr (JStr seg)"
    and "getRedirectTypeFromError (JObj c ps) = Inr (JStr (RedirectType_value m))"
    and "getRedirectStatusCodeFromError (JObj c ps) = Inr (if p then 308 else 307)"
proof -
  have t3: "take 3 (split_on CHR '';'' s) = [REDIRECT_ERROR_CODE, RedirectType_value m, seg]"
    using arg_cong [OF fs, of "take 3"] by simp
  have t2: "take 2 (split_on CHR '';'' s) = [REDIRECT_ERROR_CODE, RedirectType_value m]"
    using arg_cong [OF fs, of "take 2"] by simp
  note ok = valid_fields_recognized [OF d fs]
  show "getURLFromRedirectError (JObj c ps) = Inr (JStr seg)"
    by (simp add: getURLFromRedirectError_def ok bind_result_def d t3 arr_get_def)
  show "getRedirectTypeFromError (JObj c ps) = Inr (JStr (RedirectType_value m))"
    by (simp add: getRedirectTypeFromError_def ok bind_result_def d t2 arr_get_def)
  show "getRedirectStatusCodeFromError (JObj c ps) = Inr (if p then 308 else 307)"
    by (cases p)
      (simp_all add: getRedirectStatusCodeFromError_def ok bind_result_def d fs arr_get_def)
qed

text \<open>The four operations look at the \<^verbatim>\<open>digest\<close> property of an object and at nothing else.\<close>

lemma get_prop_digest_only:
  assumes "map_of ps ''digest'' = map_of ps' ''digest''"
  shows "get_prop (JObj c ps) ''digest'' = get_prop (JObj c' ps') ''digest''"
    and "opt_get (JObj c ps) ''digest'' = opt_get (JObj c' ps') ''digest''"
  using assms by (simp_all add: opt_get_def)

lemma isRedirectError_digest_only:
  assumes "map_of ps ''digest'' = map_of ps' ''digest''"
  shows "isRedirectError (JObj c ps) = isRedirectError (JObj c' ps')"
  unfolding isRedirectError_def get_prop_digest_only [OF assms, of c c'] by (rule refl)

lemma extract_digest_only:
  assumes "map_of ps ''digest'' = map_of ps' ''digest''"
  shows "getURLFromRedirectError (JObj c ps) = getURLFromRedirectError (JObj c' ps')"
    and "getRedirectTypeFromError (JObj c ps) = getRedirectTypeFromError (JObj c' ps')"
    and "getRedirectStatusCodeFromError (JObj c ps) = getRedirectStatusCodeFromError (JObj c' ps')"
  unfolding getURLFromRedirectError_def getRedirectTypeFromError_def
    getRedirectStatusCodeFromError_def isRedirectError_digest_only [OF assms, of c c']
    get_prop_digest_only [OF assms, of c c']
  by (rule refl)+

section \<open>Destinations without the delimiter\<close>

text \<open>
  Where the destination does not contain \<^verbatim>\<open>';'\<close>, the signal is recognised and the three
  extraction operations give back what the constructor was given.
\<close>

lemma roundtrip_delimiter_free:
  assumes "CHR '';'' \<notin> set d"
  shows "bind_result (getRedirectError gs d m p) isRedirectError = Inr True"
    and "bind_result (getRedirectError gs d m p) getURLFromRedirectError = Inr (JStr d)"
    and "bind_result (getRedirectError gs d m p) getRedirectTypeFromError =
           Inr (JStr (RedirectType_value m))"
    and "bind_result (getRedirectError gs d m p) getRedirectStatusCodeFromError =
           Inr (if default_arg p False then 308 else 307)"
proof -
  obtain c ps where g: "getRedirectError gs d m p = Inr (JObj c ps)"
    and dg: "map_of ps ''digest'' = Some (Data (JStr (digest_template m d (default_arg p False))))"
    using getRedirectError_digest by blast
  note fs = take4_valid [OF assms, of m "default_arg p False"]
  show "bind_result (getRedirectError gs d m p) isRedirectError = Inr True"
    by (simp add: g bind_result_def valid_fields_recognized [OF dg fs])
  show "bind_result (getRedirectError gs d m p) getURLFromRedirectError = Inr (JStr d)"
    by (simp add: g bind_result_def valid_fields_extracted(1) [OF dg fs])
  show "bind_result (getRedirectError gs d m p) getRedirectTypeFromError =
           Inr (JStr (RedirectType_value m))"
    by (simp add: g bind_result_def valid_fields_extracted(2) [OF dg fs])
  show "bind_result (getRedirectError gs d m p) getRedirectStatusCodeFromError =
           Inr (if default_arg p False then 308 else 307)"
    by (simp add: g bind_result_def valid_fields_extracted(3) [OF dg fs])
qed

lemma redirect_delimiter_free:
  assumes "CHR '';'' \<notin> set url"
  shows "catch_result (redirect gs url None) isRedirectError = Some (Inr True)"
    and "catch_result (redirect gs url None) getRedirectTypeFromError =
           Some (Inr (JStr ''replace''))"
    and "catch_result (redirect gs url None) getRedirectStatusCodeFromError = Some (Inr 307)"
    and "catch_result (permanentRedirect gs url (Some push)) getRedirectTypeFromError =
           Some (Inr (JStr ''push''))"
    and "catch_result (permanentRedirect gs url (Some push)) getRedirectStatusCodeFromError =
           Some (Inr 308)"
  using roundtrip_delimiter_free [OF assms, of gs replace "Some False"]
    roundtrip_delimiter_free [OF assms, of gs push "Some True"]
  by (simp_all add: redirect_def permanentRedirect_def catch_result_def getRedirectError_value
      bind_result_def default_arg_def)

lemma redirect_slash_x:
  "catch_result (redirect gs ''/x'' None) isRedirectError = Some (Inr True)"
  "catch_result (redirect gs ''/x'' None) getRedirectTypeFromError = Some (Inr (JStr ''replace''))"
  "catch_result (redirect gs ''/x'' None) getRedirectStatusCodeFromError = Some (Inr 307)"
  "catch_result (permanentRedirect gs ''/x'' (Some push)) getRedirectTypeFromError =
     Some (Inr (JStr ''push''))"
  "catch_result (permanentRedirect gs ''/x'' (Some push)) getRedirectStatusCodeFromError =
     Some (Inr 308)"
  by (simp_all add: redirect_delimiter_free)

lemmas eval_defs = getRedirectError_def isRedirectError_def getURLFromRedirectError_def
  getRedirectTypeFromError_def getRedirectStatusCodeFromError_def redirect_def
  permanentRedirect_def bind_result_def new_Error_def default_arg_def digest_template_def
  REDIRECT_ERROR_CODE_def opt_get_def split_on_def arr_get_def catch_result_def

section \<open>Properties of the specification\<close>

text \<open>
  C1. Round trip: for every destination \<open>d\<close>, also one that contains the delimiter such as
  \<^verbatim>\<open>a;b;c\<close>, every navigation mode \<open>m\<close> and every boolean \<open>p\<close>, the three extraction
  operations applied to \<open>getRedirectError d m p\<close> return \<open>d\<close>, \<open>m\<close> and 307 or 308.

  The code does not do this where \<open>d\<close> contains \<^verbatim>\<open>';'\<close>. The digest of \<^verbatim>\<open>a;b;c\<close> is
  \<^verbatim>\<open>NEXT_REDIRECT;push;a;b;c;false\<close>, and \<^verbatim>\<open>split(';', 4)\<close> keeps its first four fields
  \<^verbatim>\<open>NEXT_REDIRECT\<close>, \<^verbatim>\<open>push\<close>, \<^verbatim>\<open>a\<close>, \<^verbatim>\<open>b\<close>: the signal is not recognised,
  \<open>getURLFromRedirectError\<close> returns \<^verbatim>\<open>null\<close> and the other two throw. With the destination
  \<^verbatim>\<open>a;true\<close> and \<open>p = False\<close> the signal is recognised, the destination read is
  \<^verbatim>\<open>a\<close> and the status is 308. The theorem evaluates the code at both inputs;
  \<open>roundtrip_delimiter_free\<close> above is the round trip for the destinations without \<^verbatim>\<open>';'\<close>.
\<close>

theorem roundtrip_breaks_on_delimiter:
  "bind_result (getRedirectError None ''a;b;c'' push (Some False)) getURLFromRedirectError =
     Inr JNull \<and>
   bind_result (getRedirectError None ''a;b;c'' push (Some False)) getRedirectTypeFromError =
     Inl (new_Error ''Not a redirect error'') \<and>
   bind_result (getRedirectError None ''a;b;c'' push (Some False)) getRedirectStatusCodeFromError =
     Inl (new_Error ''Not a redirect error'') \<and>
   bind_result (getRedirectError None ''a;true'' push (Some False)) getURLFromRedirectError =
     Inr (JStr ''a'') \<and>
   bind_result (getRedirectError None ''a;true'' push (Some False)) getRedirectStatusCodeFromError =
     Inr 308"
  by (simp add: eval_defs)

text \<open>
  C2. For every destination, navigation mode and permanence, \<open>isRedirectError\<close> is true on
  the value built by \<open>getRedirectError\<close>.

  The code returns false for the destination \<^verbatim>\<open>a;b\<close>: the fourth field of the bounded
  split is \<^verbatim>\<open>b\<close>, which is neither \<^verbatim>\<open>true\<close> nor \<^verbatim>\<open>false\<close>.
\<close>

theorem recognition_breaks_on_delimiter:
  "bind_result (getRedirectError None ''a;b'' replace (Some False)) isRedirectError = Inr False"
  by (simp add: eval_defs)

text \<open>
  C3. \<open>isRedirectError\<close> returns true for a candidate exactly when its digest attribute is
  a string whose split on \<^verbatim>\<open>';'\<close> into at most 4 fields has the tag literal first,
  \<^verbatim>\<open>push\<close> or \<^verbatim>\<open>replace\<close> second, a third field that is present, and \<^verbatim>\<open>true\<close> or
  \<^verbatim>\<open>false\<close> fourth. In particular it returns false for \<^verbatim>\<open>undefined\<close>, for a plain object
  without digest, and for an error whose digest is the tag literal alone, has the navigation
  mode \<^verbatim>\<open>forward\<close>, or has the permanence \<^verbatim>\<open>yes\<close>. Wherever reading the digest does
  not throw, the function returns a boolean, and that boolean is \<open>Recognize\<close>.
\<close>

theorem isRedirectError_characterisation:
  "(isRedirectError candidate = Inr True \<longleftrightarrow> Recognize candidate) \<and>
   (\<not> read_throws candidate ''digest'' \<longrightarrow>
      isRedirectError candidate = Inr (Recognize candidate)) \<and>
   isRedirectError JUndefined = Inr False \<and>
   isRedirectError (JObj PlainObject []) = Inr False \<and>
   isRedirectError (JObj ErrorObject
      [(''message'', Data (JStr ''boom'')), (''digest'', Data (JStr ''NEXT_REDIRECT''))]) =
     Inr False \<and>
   isRedirectError (JObj ErrorObject
      [(''message'', Data (JStr ''boom'')),
       (''digest'', Data (JStr ''NEXT_REDIRECT;forward;/x;false''))]) =
     Inr False \<and>
   isRedirectError (JObj ErrorObject
      [(''message'', Data (JStr ''boom'')),
       (''digest'', Data (JStr ''NEXT_REDIRECT;push;/x;yes''))]) =
     Inr False"
proof -
  have "isRedirectError candidate = Inr True \<longleftrightarrow> Recognize candidate"
    by (rule isRedirectError_True_iff)
  moreover have "\<not> read_throws candidate ''digest'' \<longrightarrow>
      isRedirectError candidate = Inr (Recognize candidate)"
    by (simp add: isRedirectError_Recognize)
  moreover have "isRedirectError JUndefined = Inr False"
    by (simp add: eval_defs)
  moreover have "isRedirectError (JObj PlainObject []) = Inr False"
    by (simp add: eval_defs)
  moreover have "isRedirectError (JObj ErrorObject
      [(''message'', Data (JStr ''boom'')), (''digest'', Data (JStr ''NEXT_REDIRECT''))]) =
     Inr False"
    by (simp add: eval_defs)
  moreover have "isRedirectError (JObj ErrorObject
      [(''message'', Data (JStr ''boom'')),
       (''digest'', Data (JStr ''NEXT_REDIRECT;forward;/x;false''))]) =
     Inr False"
    by (simp add: eval_defs)
  moreover have "isRedirectError (JObj ErrorObject
      [(''message'', Data (JStr ''boom'')),
       (''digest'', Data (JStr ''NEXT_REDIRECT;push;/x;yes''))]) =
     Inr False"
    by (simp add: eval_defs)
  ultimately show ?thesis by blast
qed

theorem isRedirectError_characterisation_witness:
  "\<not> read_throws (JObj ErrorObject
      [(''message'', Data (JStr ''NEXT_REDIRECT'')),
       (''digest'', Data (JStr ''NEXT_REDIRECT;replace;/x;false''))]) ''digest'' \<and>
   Recognize (JObj ErrorObject
      [(''message'', Data (JStr ''NEXT_REDIRECT'')),
       (''digest'', Data (JStr ''NEXT_REDIRECT;replace;/x;false''))]) \<and>
   isRedirectError (JObj ErrorObject
      [(''message'', Data (JStr ''NEXT_REDIRECT'')),
       (''digest'', Data (JStr ''NEXT_REDIRECT;replace;/x;false''))]) = Inr True"
proof -
  let ?v = "JObj ErrorObject
      [(''message'', Data (JStr ''NEXT_REDIRECT'')),
       (''digest'', Data (JStr ''NEXT_REDIRECT;replace;/x;false''))]"
  have h: "\<not> read_throws ?v ''digest''"
    by (simp add: read_throws_def)
  have r: "Recognize ?v"
    by (simp add: Recognize_def digest_string_def split_on_def field_at_def
        REDIRECT_ERROR_CODE_def)
  show ?thesis
    using h r isRedirectError_characterisation [of ?v] by simp
qed

text \<open>
  C4. \<open>isRedirectError\<close> never throws: on every value of any shape it returns a boolean,
  and it returns false whenever the candidate has no digest attribute that is a string.

  The function reads \<^verbatim>\<open>error?.digest\<close> outside any \<^verbatim>\<open>try\<close>: where the read runs an
  accessor or a proxy trap that throws, as on \<^verbatim>\<open>{ get digest() { throw 'boom' } }\<close>, the
  function throws the same value.
\<close>

theorem isRedirectError_throws_on_accessor:
  "isRedirectError (JObj PlainObject [(''digest'', Throws (JStr ''boom''))]) = Inl (JStr ''boom'')"
  by (simp add: isRedirectError_def bind_result_def opt_get_def)

text \<open>
  C4, amended. On every value whose digest is absent or a data property (among them
  \<^verbatim>\<open>undefined\<close>, \<^verbatim>\<open>null\<close> and the other primitives) \<open>isRedirectError\<close> returns a boolean
  and does not throw, and it returns false whenever that value has no digest attribute that
  is a string; where reading the digest throws, \<open>isRedirectError\<close> throws what the read
  throws. The property read and the call of \<^verbatim>\<open>split\<close> are the two places of the
  function that can throw.
\<close>

theorem isRedirectError_throws_only_from_read:
  "(\<not> read_throws v ''digest'' \<longrightarrow>
      (\<exists>b. isRedirectError v = Inr b) \<and>
      (digest_string v = None \<longrightarrow> isRedirectError v = Inr False)) \<and>
   (map_of ps ''digest'' = Some (Throws e) \<longrightarrow> isRedirectError (JObj c ps) = Inl e)"
proof (intro conjI impI)
  show "\<exists>b. isRedirectError v = Inr b" if "\<not> read_throws v ''digest''"
    using that isRedirectError_Recognize by blast
  show "isRedirectError v = Inr False"
    if "\<not> read_throws v ''digest''" and "digest_string v = None"
    using that by (simp add: isRedirectError_no_digest)
  show "isRedirectError (JObj c ps) = Inl e" if "map_of ps ''digest'' = Some (Throws e)"
    using that by (rule isRedirectError_read_throws)
qed

theorem isRedirectError_throws_only_from_read_witness:
  "\<not> read_throws JNull ''digest'' \<and> digest_string JNull = None \<and>
   isRedirectError JNull = Inr False \<and>
   \<not> read_throws (JObj PlainObject [(''digest'', Data (JNum 7))]) ''digest'' \<and>
   digest_string (JObj PlainObject [(''digest'', Data (JNum 7))]) = None \<and>
   isRedirectError (JObj PlainObject [(''digest'', Data (JNum 7))]) = Inr False \<and>
   map_of [(''digest'', Throws (JNum 7))] ''digest'' = Some (Throws (JNum 7)) \<and>
   isRedirectError (JObj ErrorObject [(''digest'', Throws (JNum 7))]) = Inl (JNum 7)"
  using isRedirectError_throws_only_from_read [of JNull "[(''digest'', Throws (JNum 7))]"
      "JNum 7" ErrorObject]
    isRedirectError_throws_only_from_read [of "JObj PlainObject [(''digest'', Data (JNum 7))]"
      "[]" JNull PlainObject]
  by (simp add: digest_string_def read_throws_def)

text \<open>
  C5. \<open>redirect url\<close> never returns normally and throws a value on which \<open>isRedirectError\<close>
  is true, \<open>getRedirectTypeFromError\<close> returns \<^verbatim>\<open>replace\<close> and
  \<open>getRedirectStatusCodeFromError\<close> returns 307; \<open>permanentRedirect url push\<close> never returns
  normally and throws a value with the navigation mode \<^verbatim>\<open>push\<close> and the status 308.

  Both helpers always throw (\<open>redirect_throws\<close>), and the rest holds for every \<open>url\<close>
  without \<^verbatim>\<open>';'\<close> (\<open>redirect_delimiter_free\<close>, \<open>redirect_slash_x\<close>). For the url
  \<^verbatim>\<open>a;b\<close> the thrown value is not recognised and both extraction operations throw:
  the theorem evaluates the code there.
\<close>

theorem throw_helpers_break_on_delimiter:
  "catch_result (redirect None ''a;b'' None) isRedirectError = Some (Inr False) \<and>
   catch_result (redirect None ''a;b'' None) getRedirectTypeFromError =
     Some (Inl (new_Error ''Not a redirect error'')) \<and>
   catch_result (redirect None ''a;b'' None) getRedirectStatusCodeFromError =
     Some (Inl (new_Error ''Not a redirect error'')) \<and>
   catch_result (permanentRedirect None ''a;b'' (Some push)) getRedirectTypeFromError =
     Some (Inl (new_Error ''Not a redirect error'')) \<and>
   catch_result (permanentRedirect None ''a;b'' (Some push)) getRedirectStatusCodeFromError =
     Some (Inl (new_Error ''Not a redirect error''))"
  by (simp add: eval_defs)

text \<open>
  C6. On every value on which \<open>isRedirectError\<close> is false, such as a plain
  \<^verbatim>\<open>Error('boom')\<close>, \<open>getRedirectTypeFromError\<close> and \<open>getRedirectStatusCodeFromError\<close>
  throw the error \<^verbatim>\<open>Not a redirect error\<close>.
\<close>

theorem extraction_rejects_non_signal:
  assumes "isRedirectError v = Inr False"
  shows "getRedirectTypeFromError v = Inl (new_Error ''Not a redirect error'') \<and>
         getRedirectStatusCodeFromError v = Inl (new_Error ''Not a redirect error'')"
  using assms
  by (simp add: getRedirectTypeFromError_def getRedirectStatusCodeFromError_def bind_result_def)

theorem extraction_rejects_non_signal_witness:
  "isRedirectError (new_Error ''boom'') = Inr False \<and>
   getRedirectTypeFromError (new_Error ''boom'') = Inl (new_Error ''Not a redirect error'') \<and>
   getRedirectStatusCodeFromError (new_Error ''boom'') = Inl (new_Error ''Not a redirect error'')"
proof -
  have h: "isRedirectError (new_Error ''boom'') = Inr False"
    by (simp add: isRedirectError_def new_Error_def opt_get_def bind_result_def)
  show ?thesis using h extraction_rejects_non_signal [OF h] by simp
qed

text \<open>
  C7. For every destination \<open>d\<close>, navigation mode \<open>m\<close> and boolean \<open>p\<close>, the value built by
  \<open>getRedirectError\<close> has the tag literal as its message, and its digest is the four fields
  tag, \<open>m\<close>, \<open>d\<close> and \<^verbatim>\<open>true\<close> or \<^verbatim>\<open>false\<close> for \<open>p\<close>, joined in this order by \<^verbatim>\<open>';'\<close>.
  The digest is written out for each of the two navigation modes and the two booleans, as
  the join of its four fields and as the string that the join is.
\<close>

theorem getRedirectError_message_and_digest:
  "bind_result (getRedirectError gs d m (Some p)) (\<lambda>error. get_prop error ''message'') =
     Inr (JStr ''NEXT_REDIRECT'') \<and>
   bind_result (getRedirectError gs d push (Some True)) (\<lambda>error. get_prop error ''digest'') =
     Inr (JStr (join_with CHR '';'' [''NEXT_REDIRECT'', ''push'', d, ''true''])) \<and>
   bind_result (getRedirectError gs d push (Some False)) (\<lambda>error. get_prop error ''digest'') =
     Inr (JStr (join_with CHR '';'' [''NEXT_REDIRECT'', ''push'', d, ''false''])) \<and>
   bind_result (getRedirectError gs d replace (Some True)) (\<lambda>error. get_prop error ''digest'') =
     Inr (JStr (join_with CHR '';'' [''NEXT_REDIRECT'', ''replace'', d, ''true''])) \<and>
   bind_result (getRedirectError gs d replace (Some False)) (\<lambda>error. get_prop error ''digest'') =
     Inr (JStr (join_with CHR '';'' [''NEXT_REDIRECT'', ''replace'', d, ''false''])) \<and>
   join_with CHR '';'' [''NEXT_REDIRECT'', ''push'', d, ''true''] =
     ''NEXT_REDIRECT;push;'' @ d @ '';true'' \<and>
   join_with CHR '';'' [''NEXT_REDIRECT'', ''push'', d, ''false''] =
     ''NEXT_REDIRECT;push;'' @ d @ '';false'' \<and>
   join_with CHR '';'' [''NEXT_REDIRECT'', ''replace'', d, ''true''] =
     ''NEXT_REDIRECT;replace;'' @ d @ '';true'' \<and>
   join_with CHR '';'' [''NEXT_REDIRECT'', ''replace'', d, ''false''] =
     ''NEXT_REDIRECT;replace;'' @ d @ '';false'' \<and>
   REDIRECT_ERROR_CODE = ''NEXT_REDIRECT''"
  by (cases gs)
    (simp_all add: getRedirectError_value bind_result_def digest_template_def default_arg_def
      REDIRECT_ERROR_CODE_def)

text \<open>
  C8. Where no request store is active when the signal is built, the signal carries no
  \<^verbatim>\<open>mutableCookies\<close> property, and the three extraction operations return on it what they
  return on the signal built with a store, whatever its cookies.
\<close>

theorem getRedirectError_without_store:
  "bind_result (getRedirectError None d m p)
       (\<lambda>error. Inr (has_own_property error ''mutableCookies'')) = Inr False \<and>
   bind_result (getRedirectError None d m p) getURLFromRedirectError =
     bind_result (getRedirectError (Some store) d m p) getURLFromRedirectError \<and>
   bind_result (getRedirectError None d m p) getRedirectTypeFromError =
     bind_result (getRedirectError (Some store) d m p) getRedirectTypeFromError \<and>
   bind_result (getRedirectError None d m p) getRedirectStatusCodeFromError =
     bind_result (getRedirectError (Some store) d m p) getRedirectStatusCodeFromError"
proof -
  let ?ps = "[(''message'', Data (JStr REDIRECT_ERROR_CODE)),
              (''digest'', Data (JStr (digest_template m d (default_arg p False))))]"
  let ?ps' = "?ps @ [(''mutableCookies'', Data (mutableCookies store))]"
  have n: "getRedirectError None d m p = Inr (JObj ErrorObject ?ps)"
    by (simp add: getRedirectError_value)
  have s: "getRedirectError (Some store) d m p = Inr (JObj ErrorObject ?ps')"
    by (simp add: getRedirectError_value)
  have eq: "map_of ?ps ''digest'' = map_of ?ps' ''digest''"
    by simp
  have "has_own_property (JObj ErrorObject ?ps) ''mutableCookies'' = False"
    by (simp add: has_own_property_def)
  then show ?thesis
    unfolding n s bind_result_def using extract_digest_only [OF eq, of ErrorObject ErrorObject]
    by simp
qed

text \<open>
  C9. On every value on which \<open>isRedirectError\<close> is false, \<open>getURLFromRedirectError\<close>
  returns \<^verbatim>\<open>null\<close> and does not throw, where the other two extraction operations throw.
\<close>

theorem getURLFromRedirectError_null_on_non_signal:
  assumes "isRedirectError v = Inr False"
  shows "getURLFromRedirectError v = Inr JNull \<and>
         isl (getRedirectTypeFromError v) \<and> isl (getRedirectStatusCodeFromError v)"
  using assms
  by (simp add: getURLFromRedirectError_def getRedirectTypeFromError_def
      getRedirectStatusCodeFromError_def bind_result_def)

theorem getURLFromRedirectError_null_on_non_signal_witness:
  "isRedirectError (JObj PlainObject [(''digest'', Data (JStr ''NEXT_REDIRECT;push;/x;yes''))]) =
     Inr False \<and>
   getURLFromRedirectError (JObj PlainObject [(''digest'', Data (JStr ''NEXT_REDIRECT;push;/x;yes''))]) =
     Inr JNull \<and>
   isl (getRedirectTypeFromError
     (JObj PlainObject [(''digest'', Data (JStr ''NEXT_REDIRECT;push;/x;yes''))])) \<and>
   isl (getRedirectStatusCodeFromError
     (JObj PlainObject [(''digest'', Data (JStr ''NEXT_REDIRECT;push;/x;yes''))]))"
proof -
  have h: "isRedirectError (JObj PlainObject [(''digest'', Data (JStr ''NEXT_REDIRECT;push;/x;yes''))]) =
     Inr False"
    by (simp add: eval_defs)
  show ?thesis using h getURLFromRedirectError_null_on_non_signal [OF h] by simp
qed

text \<open>
  C10. \<open>isRedirectError\<close> looks at the first four fields of the digest only: a value whose
  digest starts with four valid fields (the tag, \<^verbatim>\<open>push\<close> or \<^verbatim>\<open>replace\<close>, a destination
  segment, \<^verbatim>\<open>true\<close> or \<^verbatim>\<open>false\<close>) is recognised whatever follows the fourth field after a
  further \<^verbatim>\<open>';'\<close>, and the extraction operations return those first fields.
\<close>

theorem isRedirectError_ignores_extra_fields:
  assumes "CHR '';'' \<notin> set seg"
    and "map_of ps ''digest'' = Some (Data (JStr (digest_template m seg p @ CHR '';'' # extra)))"
  shows "isRedirectError (JObj c ps) = Inr True \<and>
         getURLFromRedirectError (JObj c ps) = Inr (JStr seg) \<and>
         getRedirectTypeFromError (JObj c ps) = Inr (JStr (RedirectType_value m)) \<and>
         getRedirectStatusCodeFromError (JObj c ps) = Inr (if p then 308 else 307)"
  using valid_fields_recognized [OF assms(2) take4_valid_extra [OF assms(1)]]
    valid_fields_extracted [OF assms(2) take4_valid_extra [OF assms(1)]]
  by simp

theorem isRedirectError_ignores_extra_fields_witness:
  "CHR '';'' \<notin> set ''/x'' \<and>
   map_of [(''digest'', Data (JStr ''NEXT_REDIRECT;push;/x;true;more;fields''))] ''digest'' =
     Some (Data (JStr (digest_template push ''/x'' True @ CHR '';'' # ''more;fields''))) \<and>
   isRedirectError
     (JObj PlainObject [(''digest'', Data (JStr ''NEXT_REDIRECT;push;/x;true;more;fields''))]) =
     Inr True \<and>
   getURLFromRedirectError
     (JObj PlainObject [(''digest'', Data (JStr ''NEXT_REDIRECT;push;/x;true;more;fields''))]) =
     Inr (JStr ''/x'') \<and>
   getRedirectTypeFromError
     (JObj PlainObject [(''digest'', Data (JStr ''NEXT_REDIRECT;push;/x;true;more;fields''))]) =
     Inr (JStr ''push'') \<and>
   getRedirectStatusCodeFromError
     (JObj PlainObject [(''digest'', Data (JStr ''NEXT_REDIRECT;push;/x;true;more;fields''))]) =
     Inr 308"
proof -
  have h1: "CHR '';'' \<notin> set ''/x''" by simp
  have h2: "map_of [(''digest'', Data (JStr ''NEXT_REDIRECT;push;/x;true;more;fields''))] ''digest'' =
     Some (Data (JStr (digest_template push ''/x'' True @ CHR '';'' # ''more;fields'')))"
    by (simp add: digest_template_def REDIRECT_ERROR_CODE_def)
  show ?thesis
    using h1 h2 isRedirectError_ignores_extra_fields [OF h1 h2, of PlainObject] by simp
qed

end
